theory Spec2Isabelle
  imports Main "HOL-Library.Sublist" "HOL-Library.AList"
begin

section \<open>Python values used by the clients\<close>

text \<open>
  Optional list arguments (\<^verbatim>\<open>extensions: List[str] = None\<close>) are \<open>string list option\<close>;
  Python's truth test \<^verbatim>\<open>if extensions:\<close> is false for \<^verbatim>\<open>None\<close> and for the empty list.
\<close>

definition truthy_list :: "'a list option \<Rightarrow> bool" where
  "truthy_list xs = (case xs of None \<Rightarrow> False | Some l \<Rightarrow> l \<noteq> [])"

definition elems :: "'a list option \<Rightarrow> 'a list" where
  "elems xs = (case xs of None \<Rightarrow> [] | Some l \<Rightarrow> l)"

text \<open>
  A Python \<^verbatim>\<open>dict\<close> with string keys is an association list in insertion order with
  distinct keys: \<^verbatim>\<open>d[k] = v\<close> is \<^const>\<open>AList.update\<close> (an existing key keeps its place, a
  new key goes to the end), \<^verbatim>\<open>d.keys()\<close> is \<open>map fst\<close>, \<^verbatim>\<open>len(d)\<close> is \<open>length\<close> and
  \<^verbatim>\<open>k in d\<close> is \<open>map_of d k \<noteq> None\<close>.
\<close>

type_synonym 'v dict = "(string \<times> 'v) list"

text \<open>
  Exceptions are values. \<open>Exception msg\<close> stands for any exception below Python's
  \<^verbatim>\<open>Exception\<close> class that a remote call, a decoder or a malformed reply raises;
  \<open>ValueError\<close> is what \<^verbatim>\<open>range\<close>, \<^verbatim>\<open>ThreadPoolExecutor\<close> and the direct client's
  constructor raise on a bad argument, \<open>TypeError\<close> what calling a value that is not callable
  raises.
\<close>

datatype error = ValueError | TypeError | Exception string

text \<open>The truth test of an optional string: false for \<^verbatim>\<open>None\<close> and for \<^verbatim>\<open>""\<close>.\<close>

definition truthy_str :: "string option \<Rightarrow> bool" where
  "truthy_str s = (case s of None \<Rightarrow> False | Some t \<Rightarrow> t \<noteq> [])"

text \<open>\<^verbatim>\<open>path.endswith(ext)\<close> and \<^verbatim>\<open>pattern in path\<close> on strings.\<close>

definition endswith :: "string \<Rightarrow> string \<Rightarrow> bool" where
  "endswith path ext = suffix ext path"

definition str_in :: "string \<Rightarrow> string \<Rightarrow> bool" where
  "str_in pattern path = sublist pattern path"

section \<open>GithubClientBase.get_repository_structure: the inclusion filter\<close>

definition binary_extensions :: "string list" where
  "binary_extensions =
     [''.png'', ''.jpg'', ''.jpeg'', ''.gif'', ''.bmp'', ''.pdf'', ''.zip'',
      ''.gz'', ''.tar'', ''.class'', ''.exe'', ''.dll'', ''.so'']"

text \<open>
  The nested helper \<^verbatim>\<open>should_include_file(path)\<close>; the enclosing call's arguments
  \<^verbatim>\<open>extensions\<close> and \<^verbatim>\<open>include_patterns\<close> are passed explicitly.
\<close>

definition should_include_file :: "string list option \<Rightarrow> string list option \<Rightarrow> string \<Rightarrow> bool" where
  "should_include_file extensions include_patterns path =
     (let skip_binary =
            (if list_ex (\<lambda>ext. endswith path ext) binary_extensions then False else True)
      in if truthy_list extensions then
           (if \<not> list_ex (\<lambda>ext. endswith path ext) (elems extensions) then
              (if truthy_list include_patterns
                  \<and> list_ex (\<lambda>pattern. str_in pattern path) (elems include_patterns)
               then True else False)
            else skip_binary)
         else skip_binary)"

section \<open>GithubClientBase.get_repository_structure: branch resolution and fetch phase\<close>

text \<open>
  Lines 126--129: \<^verbatim>\<open>if branch is None: branch = self._get_default_branch(owner, repo)\<close>.
  The call stands outside every \<^verbatim>\<open>try\<close>, so what the client's method raises is raised by
  \<^verbatim>\<open>get_repository_structure\<close>. The first argument is the outcome of that method call.
\<close>

definition branch_to_use :: "error + string \<Rightarrow> string option \<Rightarrow> error + string" where
  "branch_to_use get_default_branch branch =
     (case branch of None \<Rightarrow> get_default_branch | Some b \<Rightarrow> Inr b)"

text \<open>\<^verbatim>\<open>GithubClientBase._get_default_branch\<close>: no remote call, always \<^verbatim>\<open>"main"\<close>.\<close>

definition GithubClientBase_get_default_branch :: "string \<Rightarrow> string \<Rightarrow> error + string" where
  "GithubClientBase_get_default_branch owner repo = Inr ''main''"

text \<open>
  The reply of the MCP tool \<^verbatim>\<open>search_repositories\<close>, read through
  \<^verbatim>\<open>repo_info.get("total_count", 0)\<close>, \<^verbatim>\<open>repo_info.get("items", [])\<close> and
  \<^verbatim>\<open>items[0].get("default_branch")\<close>. \<^verbatim>\<open>call_mcp_tool\<close> is the remote call: a function from the
  query to either the exception it raises (time-out, non-zero exit, invalid JSON, or a reply
  of the wrong shape, whose first \<^verbatim>\<open>.get\<close> raises inside the same \<^verbatim>\<open>try\<close>) or the reply.
\<close>

record repo_item =
  default_branch :: "string option"

record repositories_reply =
  total_count :: int
  items :: "repo_item list"

definition GithubClientMCP_get_default_branch ::
  "(string \<Rightarrow> error + repositories_reply) \<Rightarrow> string \<Rightarrow> string \<Rightarrow> error + string" where
  "GithubClientMCP_get_default_branch call_mcp_tool owner repo =
     (case call_mcp_tool (''repo:'' @ owner @ ''/'' @ repo) of
        Inl e \<Rightarrow> Inr ''main''
      | Inr repo_info \<Rightarrow>
          if total_count repo_info > 0 then
            (case items repo_info of
               [] \<Rightarrow> Inr ''main''
             | item # _ \<Rightarrow>
                 (case default_branch item of
                    None \<Rightarrow> Inr ''main''
                  | Some branch \<Rightarrow> if branch \<noteq> [] then Inr branch else Inr ''main''))
          else Inr ''main'')"

text \<open>
  \<^verbatim>\<open>GithubClientDirect._get_default_branch\<close>: \<^verbatim>\<open>self.github.get_repo(f"{owner}/{repo}")\<close>
  followed by \<^verbatim>\<open>repository.default_branch\<close>, with no handler around either.
\<close>

record repository =
  repository_default_branch :: string

definition GithubClientDirect_get_default_branch ::
  "(string \<Rightarrow> error + repository) \<Rightarrow> string \<Rightarrow> string \<Rightarrow> error + string" where
  "GithubClientDirect_get_default_branch get_repo owner repo =
     (case get_repo (owner @ ''/'' @ repo) of
        Inl e \<Rightarrow> Inl e
      | Inr repository \<Rightarrow> Inr (repository_default_branch repository))"

text \<open>
  Lines 223--231, the loop over \<^verbatim>\<open>as_completed(future_to_path)\<close> for one batch.
  \<open>get_file_content path\<close> is the outcome of the future submitted for \<open>path\<close>: the content,
  or the exception that \<^verbatim>\<open>future.result()\<close> raises again and the handler logs. The second
  argument lists the batch's paths in the order in which their futures completed.
\<close>

fun process_completed ::
  "(string \<Rightarrow> error + string) \<Rightarrow> string list \<Rightarrow> string dict \<Rightarrow> string dict" where
  "process_completed get_file_content [] result = result"
| "process_completed get_file_content (path # completed) result =
     (case get_file_content path of
        Inr content \<Rightarrow>
          process_completed get_file_content completed (AList.update path content result)
      | Inl e \<Rightarrow> process_completed get_file_content completed result)"

text \<open>
  Lines 211--231, \<^verbatim>\<open>for i in range(0, len(all_file_paths), batch_size)\<close> with
  \<^verbatim>\<open>batch = all_file_paths[i:i+batch_size]\<close>, for a positive step. \<open>as_completed\<close> is the
  scheduler: it maps a batch to the order in which its futures complete.
\<close>

function fetch_batches ::
  "(string \<Rightarrow> error + string) \<Rightarrow> (string list \<Rightarrow> string list) \<Rightarrow> string list \<Rightarrow> nat \<Rightarrow> nat
     \<Rightarrow> string dict \<Rightarrow> string dict" where
  "fetch_batches get_file_content as_completed all_file_paths batch_size i result =
     (if batch_size = 0 \<or> length all_file_paths \<le> i then result
      else fetch_batches get_file_content as_completed all_file_paths batch_size (i + batch_size)
             (process_completed get_file_content
                (as_completed (take batch_size (drop i all_file_paths))) result))"
  by pat_completeness auto
termination
  by (relation "measure (\<lambda>(g, a, ps, b, i, r). length ps - i)") auto

declare fetch_batches.simps [simp del]

text \<open>
  Lines 201--232, the fetch phase on the collected paths. An empty collection returns the
  empty map before any batch; \<^verbatim>\<open>range\<close> raises \<^verbatim>\<open>ValueError\<close> on a zero step and is empty on
  a negative one; \<^verbatim>\<open>ThreadPoolExecutor\<close> raises \<^verbatim>\<open>ValueError\<close> when \<^verbatim>\<open>max_workers\<close> is not
  positive.
\<close>

definition fetch_file_contents ::
  "(string \<Rightarrow> error + string) \<Rightarrow> (string list \<Rightarrow> string list) \<Rightarrow> string list \<Rightarrow> int \<Rightarrow> int
     \<Rightarrow> error + string dict" where
  "fetch_file_contents get_file_content as_completed all_file_paths batch_size max_workers =
     (if all_file_paths = [] then Inr []
      else if batch_size = 0 then Inl ValueError
      else if batch_size < 0 then Inr []
      else if max_workers \<le> 0 then Inl ValueError
      else Inr (fetch_batches get_file_content as_completed all_file_paths (nat batch_size) 0 []))"

section \<open>GithubClientMCP: code search and backlink queries\<close>

text \<open>
  \<^verbatim>\<open>os.path.basename\<close>, \<^verbatim>\<open>os.path.dirname\<close> and \<^verbatim>\<open>os.path.splitext\<close> of Python's
  \<^verbatim>\<open>posixpath\<close>: the part after the last slash; the part up to the last slash with trailing
  slashes removed unless it consists of slashes only; the split at the last dot, provided the
  dot comes after the last slash and some character between that slash and the dot is not a
  dot.
\<close>

definition basename :: "string \<Rightarrow> string" where
  "basename p = rev (takeWhile (\<lambda>c. c \<noteq> CHR ''/'') (rev p))"

definition dirname :: "string \<Rightarrow> string" where
  "dirname p =
     (let head = rev (dropWhile (\<lambda>c. c \<noteq> CHR ''/'') (rev p))
      in if head \<noteq> [] \<and> \<not> list_all (\<lambda>c. c = CHR ''/'') head
         then rev (dropWhile (\<lambda>c. c = CHR ''/'') (rev head)) else head)"

definition splitext :: "string \<Rightarrow> string \<times> string" where
  "splitext p =
     (let after = rev (takeWhile (\<lambda>c. c \<noteq> CHR ''.'') (rev p));
          root = rev (drop 1 (dropWhile (\<lambda>c. c \<noteq> CHR ''.'') (rev p)))
      in if CHR ''.'' \<in> set p \<and> CHR ''/'' \<notin> set after
            \<and> list_ex (\<lambda>c. c \<noteq> CHR ''.'') (basename root)
         then (root, CHR ''.'' # after) else (p, []))"

text \<open>
  The reply of the MCP tool \<^verbatim>\<open>search_code\<close>, read through \<^verbatim>\<open>response.get("items", [])\<close>,
  \<^verbatim>\<open>response.get("total_count", 0)\<close> and \<^verbatim>\<open>item.get("path")\<close>; an item without a path
  yields \<^verbatim>\<open>None\<close>. The remote call maps the query, the page and the page size to the
  exception it raises or to the reply; a reply that is no JSON object makes the first
  \<^verbatim>\<open>.get\<close> raise inside the same \<^verbatim>\<open>try\<close> and counts as an exception of the call. Items
  are JSON objects, as the code search returns them, so that \<^verbatim>\<open>item.get\<close> does not raise.
\<close>

record item =
  item_path :: "string option"

record code_search_reply =
  cs_items :: "item list"
  cs_total_count :: int

text \<open>
  The \<^verbatim>\<open>while len(results) < max_results\<close> loop of \<^verbatim>\<open>search_code\<close> (lines 200--218). Every
  turn that does not leave the loop appends at least one item, which is why it ends.
\<close>

function search_code_pages ::
  "(string \<Rightarrow> nat \<Rightarrow> nat \<Rightarrow> error + code_search_reply) \<Rightarrow> string \<Rightarrow> nat \<Rightarrow> nat \<Rightarrow> nat
     \<Rightarrow> item list \<Rightarrow> error + item list" where
  "search_code_pages call_mcp_tool query per_page max_results page results =
     (if length results < max_results then
        (case call_mcp_tool query page per_page of
           Inl e \<Rightarrow> Inl e
         | Inr response \<Rightarrow>
             if cs_items response = [] then Inr results
             else if cs_total_count response \<le> int (length (results @ cs_items response))
                     \<or> max_results \<le> length (results @ cs_items response)
               then Inr (results @ cs_items response)
               else search_code_pages call_mcp_tool query per_page max_results (page + 1)
                      (results @ cs_items response))
      else Inr results)"
  by pat_completeness auto
termination
  by (relation "measure (\<lambda>(c, q, pp, m, p, r). m - length r)") (auto simp: neq_Nil_conv)

declare search_code_pages.simps [simp del]

text \<open>
  \<^verbatim>\<open>search_code(owner, repo, query, max_results=100)\<close>, for a count \<^verbatim>\<open>max_results\<close> that is
  not negative (its only caller passes the default). Any exception gives the empty list.
\<close>

definition search_code ::
  "(string \<Rightarrow> nat \<Rightarrow> nat \<Rightarrow> error + code_search_reply) \<Rightarrow> string \<Rightarrow> string \<Rightarrow> string \<Rightarrow> nat
     \<Rightarrow> item list" where
  "search_code call_mcp_tool owner repo query max_results =
     (let query = (if \<not> str_in (''repo:'' @ owner @ ''/'' @ repo) query
                   then ''repo:'' @ owner @ ''/'' @ repo @ '' '' @ query else query);
          per_page = min 100 max_results
      in case search_code_pages call_mcp_tool query per_page max_results 1 [] of
           Inl e \<Rightarrow> []
         | Inr results \<Rightarrow> take max_results results)"

text \<open>The f-string \<^verbatim>\<open>f"\"{s}\""\<close>: \<open>s\<close> between two double quotes.\<close>

definition quoted :: "string \<Rightarrow> string" where
  "quoted s = [CHR 0x22] @ s @ [CHR 0x22]"

text \<open>Lines 239--260 of \<^verbatim>\<open>search_references\<close>: the list \<^verbatim>\<open>queries\<close>.\<close>

definition backlink_queries :: "string \<Rightarrow> string list" where
  "backlink_queries filepath =
     (let filename = basename filepath;
          (name, ext) = splitext filename
      in [quoted filename] @
         (if ext = ''.py'' then
            (let module_name =
                   (if name = ''__init__'' then
                      (let dir_name = basename (dirname filepath)
                       in if dir_name \<noteq> [] then dir_name else name)
                    else name)
             in [quoted (''import '' @ module_name), quoted (''from '' @ module_name)])
          else []))"

text \<open>
  Lines 262--274 of \<^verbatim>\<open>search_references\<close>: the two nested loops that fill the set
  \<^verbatim>\<open>references\<close>. Its elements are what \<^verbatim>\<open>item.get("path")\<close> returns.
\<close>

definition search_references ::
  "(string \<Rightarrow> nat \<Rightarrow> nat \<Rightarrow> error + code_search_reply) \<Rightarrow> string \<Rightarrow> string \<Rightarrow> string
     \<Rightarrow> string option set" where
  "search_references call_mcp_tool owner repo filepath =
     fold (\<lambda>query references.
             fold (\<lambda>item references.
                     if item_path item = Some filepath then references
                     else insert (item_path item) references)
                  (search_code call_mcp_tool owner repo query 100) references)
          (backlink_queries filepath) {}"

section \<open>Client objects and the capability probe\<close>













section \<open>SectionAnalyzer\<close>

datatype AnalysisMethod = STRUCTURAL | DEPENDENCY | HYBRID

text \<open>\<^verbatim>\<open>method.name\<close>.\<close>

definition method_name :: "AnalysisMethod \<Rightarrow> string" where
  "method_name method =
     (case method of
        STRUCTURAL \<Rightarrow> ''STRUCTURAL'' | DEPENDENCY \<Rightarrow> ''DEPENDENCY'' | HYBRID \<Rightarrow> ''HYBRID'')"

text \<open>A section is \<^verbatim>\<open>Tuple[str, Dict[str, str]]\<close>: its name and its files.\<close>

type_synonym repo_section = "string \<times> string dict"

text \<open>
  The two fields of the analyzer that \<^verbatim>\<open>analyze_repository\<close> reads, and
  \<^verbatim>\<open>SectionAnalyzer.__init__\<close>, which fills them (lines 35--43): the flag stays \<^verbatim>\<open>False\<close>
  without a client or when the client has no attribute \<^verbatim>\<open>has_code_search\<close>; otherwise it is
  the result of calling that attribute.
\<close>

record analyzer =
  sa_use_cache :: bool
  sa_has_code_search :: bool


text \<open>
  The records that the cache hands out are dictionaries with the keys the analyzer reads and
  writes; a field is \<open>None\<close> when the key is absent. \<open>RepoCache\<close> itself is imported from a
  module outside the sources at hand: its two read methods are taken as parameters, where
  \<open>None\<close> stands for a result that Python's truth test rejects (\<^verbatim>\<open>None\<close> or an empty
  dictionary), and each call of a write method is recorded as an event with its arguments.
\<close>

record structure_data =
  sd_sections :: "string list dict option"
  sd_files :: "string list option"
  sd_section_method :: "string option"
  sd_owner :: "string option option"
  sd_repo :: "string option option"
  sd_branch :: "string option option"

record metadata =
  md_section_count :: "nat option"
  md_section_method :: "string option"
  md_sections :: "nat dict option"

record repo_cache =
  get_repo_structure ::
    "string option \<Rightarrow> string option \<Rightarrow> string option \<Rightarrow> structure_data option"
  get_repo_metadata ::
    "string option \<Rightarrow> string option \<Rightarrow> string option \<Rightarrow> metadata option"

text \<open>
  The partition strategies and the merge pass are methods of \<^verbatim>\<open>SectionAnalyzer\<close> that
  \<^verbatim>\<open>analyze_repository\<close> calls and whose bodies are not in the sources at hand; they are
  parameters, and every call of one is recorded as an event.
\<close>

record strategies =
  structural_analysis :: "string dict \<Rightarrow> int \<Rightarrow> repo_section list"
  dependency_analysis :: "string dict \<Rightarrow> int \<Rightarrow> repo_section list"
  hybrid_analysis :: "string dict \<Rightarrow> int \<Rightarrow> repo_section list"
  enhanced_dependency_analysis ::
    "string dict \<Rightarrow> string option \<Rightarrow> string option \<Rightarrow> int \<Rightarrow> string option
       \<Rightarrow> repo_section list"
  extract_enhanced_dependencies ::
    "string dict \<Rightarrow> string option \<Rightarrow> string option \<Rightarrow> string set dict"
  group_by_dependencies :: "string dict \<Rightarrow> string set dict \<Rightarrow> int \<Rightarrow> repo_section list"
  merge_small_sections :: "repo_section list \<Rightarrow> int \<Rightarrow> repo_section list"

datatype event =
    Call_structural_analysis
  | Call_dependency_analysis
  | Call_hybrid_analysis
  | Call_enhanced_dependency_analysis
  | Call_extract_enhanced_dependencies
  | Call_group_by_dependencies
  | Call_merge_small_sections
  | Update_structure_cache "string option" "string option" "string dict" "string option"
  | Save_repo_metadata "string option" "string option" metadata "string option"

fun is_cache_write :: "event \<Rightarrow> bool" where
  "is_cache_write (Update_structure_cache owner repo repo_files branch) = True"
| "is_cache_write (Save_repo_metadata owner repo metadata branch) = True"
| "is_cache_write e = False"

text \<open>
  Line 81, \<^verbatim>\<open>{path: repo_files[path] for path in file_paths if path in repo_files}\<close>.
\<close>

definition section_files_of :: "string dict \<Rightarrow> string list \<Rightarrow> string dict" where
  "section_files_of repo_files file_paths =
     fold (\<lambda>path section_files.
             case map_of repo_files path of
               Some content \<Rightarrow> AList.update path content section_files
             | None \<Rightarrow> section_files)
          file_paths []"

text \<open>Lines 79--83, the loop over \<^verbatim>\<open>cached_sections.items()\<close>.\<close>

definition sections_from_cache :: "string list dict \<Rightarrow> string dict \<Rightarrow> repo_section list" where
  "sections_from_cache cached_sections repo_files =
     fold (\<lambda>(section_name, file_paths) sections.
             let section_files = section_files_of repo_files file_paths
             in if section_files \<noteq> [] then sections @ [(section_name, section_files)]
                else sections)
          cached_sections []"

text \<open>
  Lines 67--87: \<open>Some sections\<close> when the \<^verbatim>\<open>return sections\<close> of line 87 is reached, \<open>None\<close>
  when control falls through to line 89.
\<close>

definition use_cached_structure ::
  "analyzer \<Rightarrow> repo_cache \<Rightarrow> string dict \<Rightarrow> AnalysisMethod \<Rightarrow> string option \<Rightarrow> string option
     \<Rightarrow> string option \<Rightarrow> repo_section list option" where
  "use_cached_structure self cache repo_files method owner repo branch =
     (if sa_use_cache self \<and> truthy_str owner \<and> truthy_str repo
         \<and> method \<in> set [DEPENDENCY, HYBRID] then
        (case get_repo_structure cache owner repo branch of
           None \<Rightarrow> None
         | Some cached_structure \<Rightarrow>
             if set (map fst repo_files) = set (elems (sd_files cached_structure)) then
               (let cached_sections =
                      (case sd_sections cached_structure of None \<Rightarrow> [] | Some d \<Rightarrow> d)
                in if cached_sections \<noteq> [] then
                     (let sections = sections_from_cache cached_sections repo_files
                      in if sections \<noteq> [] then Some sections else None)
                   else None)
             else None)
      else None)"

text \<open>
  Lines 114--117, the dependency map restricted to the files of one section:
  \<^verbatim>\<open>{src: {tgt for tgt in deps if tgt in files} for src, deps in dependencies.items() if src in files}\<close>.
\<close>

definition section_deps_of :: "string set dict \<Rightarrow> string dict \<Rightarrow> string set dict" where
  "section_deps_of dependencies files =
     map (\<lambda>(src, deps). (src, {tgt \<in> deps. map_of files tgt \<noteq> None}))
         (filter (\<lambda>(src, deps). map_of files src \<noteq> None) dependencies)"

text \<open>Lines 110--129, the loop over \<^verbatim>\<open>structural_sections\<close> of the enhanced hybrid branch.\<close>

fun refine_large_sections ::
  "strategies \<Rightarrow> string set dict \<Rightarrow> int \<Rightarrow> repo_section list
     \<Rightarrow> repo_section list \<times> event list" where
  "refine_large_sections st dependencies max_section_size [] = ([], [])"
| "refine_large_sections st dependencies max_section_size ((section_name, files) # rest) =
     (let (sections, events) = refine_large_sections st dependencies max_section_size rest
      in if int (length files) > max_section_size then
           (map (\<lambda>(subsection_name, subsection_files).
                   (section_name @ ''/'' @ subsection_name, subsection_files))
                (group_by_dependencies st files (section_deps_of dependencies files)
                   max_section_size) @ sections,
            Call_group_by_dependencies # events)
         else ((section_name, files) # sections, events))"

text \<open>Lines 89--136, the dispatch on the method and on the capability flag.\<close>

definition select_analysis ::
  "analyzer \<Rightarrow> strategies \<Rightarrow> string dict \<Rightarrow> AnalysisMethod \<Rightarrow> int \<Rightarrow> string option
     \<Rightarrow> string option \<Rightarrow> string option \<Rightarrow> repo_section list \<times> event list" where
  "select_analysis self st repo_files method max_section_size owner repo branch =
     (if method = DEPENDENCY then
        (if sa_has_code_search self \<and> truthy_str owner \<and> truthy_str repo then
           (enhanced_dependency_analysis st repo_files owner repo max_section_size branch,
            [Call_enhanced_dependency_analysis])
         else (dependency_analysis st repo_files max_section_size, [Call_dependency_analysis]))
      else if method = HYBRID then
        (if sa_has_code_search self \<and> truthy_str owner \<and> truthy_str repo then
           (let structural_sections = structural_analysis st repo_files max_section_size;
                dependencies = extract_enhanced_dependencies st repo_files owner repo;
                (sections, events) =
                  refine_large_sections st dependencies max_section_size structural_sections
            in (sections,
                [Call_structural_analysis, Call_extract_enhanced_dependencies] @ events))
         else (hybrid_analysis st repo_files max_section_size, [Call_hybrid_analysis]))
      else (structural_analysis st repo_files max_section_size, [Call_structural_analysis]))"

text \<open>
  Lines 142--167. \<^verbatim>\<open>structure_data\<close> is built as in the source; the source hands
  \<^verbatim>\<open>repo_files\<close>, not \<^verbatim>\<open>structure_data\<close>, to \<^verbatim>\<open>update_structure_cache\<close>, so the value
  appears in no event.
\<close>

definition cache_sections ::
  "analyzer \<Rightarrow> repo_cache \<Rightarrow> string dict \<Rightarrow> AnalysisMethod \<Rightarrow> string option \<Rightarrow> string option
     \<Rightarrow> string option \<Rightarrow> repo_section list \<Rightarrow> event list" where
  "cache_sections self cache repo_files method owner repo branch sections =
     (if sa_use_cache self \<and> truthy_str owner \<and> truthy_str repo then
        (let cacheable_sections =
               fold (\<lambda>(section_name, files) d. AList.update section_name (map fst files) d)
                    sections [];
             structure_data =
               (case get_repo_structure cache owner repo branch of
                  None \<Rightarrow> \<lparr>sd_sections = None, sd_files = None, sd_section_method = None,
                            sd_owner = None, sd_repo = None, sd_branch = None\<rparr>
                | Some d \<Rightarrow> d);
             structure_data = structure_data
               \<lparr>sd_sections := Some cacheable_sections,
                sd_files := Some (map fst repo_files),
                sd_section_method := Some (method_name method)\<rparr>;
             structure_data =
               (if sd_owner structure_data = None
                then structure_data
                       \<lparr>sd_owner := Some owner, sd_repo := Some repo, sd_branch := Some branch\<rparr>
                else structure_data);
             metadata =
               (case get_repo_metadata cache owner repo branch of
                  None \<Rightarrow> \<lparr>md_section_count = None, md_section_method = None,
                            md_sections = None\<rparr>
                | Some d \<Rightarrow> d);
             metadata = metadata
               \<lparr>md_section_count := Some (length sections),
                md_section_method := Some (method_name method),
                md_sections :=
                  Some (fold (\<lambda>(name, files) d. AList.update name (length files) d)
                          sections [])\<rparr>
         in [Update_structure_cache owner repo repo_files branch,
             Save_repo_metadata owner repo metadata branch])
      else [])"

text \<open>
  \<^verbatim>\<open>SectionAnalyzer.analyze_repository\<close>: the returned sections and the events of the run.
\<close>

definition analyze_repository ::
  "analyzer \<Rightarrow> repo_cache \<Rightarrow> strategies \<Rightarrow> string dict \<Rightarrow> AnalysisMethod \<Rightarrow> int \<Rightarrow> int
     \<Rightarrow> string option \<Rightarrow> string option \<Rightarrow> string option \<Rightarrow> repo_section list \<times> event list" where
  "analyze_repository self cache st repo_files method max_section_size min_section_size
       owner repo branch =
     (case use_cached_structure self cache repo_files method owner repo branch of
        Some sections \<Rightarrow> (sections, [])
      | None \<Rightarrow>
          (let (sections, events) =
                 select_analysis self st repo_files method max_section_size owner repo branch;
               (sections, events) =
                 (if min_section_size > 1
                  then (merge_small_sections st sections min_section_size,
                        events @ [Call_merge_small_sections])
                  else (sections, events))
           in (sections,
               events @ cache_sections self cache repo_files method owner repo branch sections)))"

section \<open>The merge pass\<close>

text \<open>
  Modelled from the spec: the body of \<^verbatim>\<open>_merge_small_sections\<close> is missing from the sources.
  The specification's \<^verbatim>\<open>mergeSmall(sections, minSize)\<close> folds a section below \<^verbatim>\<open>minSize\<close> into
  an adjacent section, which without a graph (the call passes none) is the following section
  in the order of the list; it never produces an empty section and does nothing when only one
  section exists. Folding a section into a target adds its files to the target, which keeps
  its name.
\<close>

definition fold_into :: "repo_section \<Rightarrow> repo_section \<Rightarrow> repo_section" where
  "fold_into small target =
     (fst target,
      fold (\<lambda>(path, content) files. AList.update path content files) (snd small) (snd target))"

text \<open>
  Modelled from the spec: one pass of \<^verbatim>\<open>mergeSmall\<close> from the front, where every section
  below \<^verbatim>\<open>minSize\<close> that has a following section is folded into it.
\<close>

fun merge_into_following :: "int \<Rightarrow> repo_section list \<Rightarrow> repo_section list" where
  "merge_into_following minSize (s # t # rest) =
     (if int (length (snd s)) < minSize then merge_into_following minSize (fold_into s t # rest)
      else s # merge_into_following minSize (t # rest))"
| "merge_into_following minSize sections = sections"

text \<open>
  Modelled from the spec: \<^verbatim>\<open>mergeSmall\<close>. After the pass only the last section can still be
  below \<^verbatim>\<open>minSize\<close>; it has no following section and is folded into its other neighbour, the
  section before it.
\<close>

definition mergeSmall :: "repo_section list \<Rightarrow> int \<Rightarrow> repo_section list" where
  "mergeSmall sections minSize =
     (let merged = merge_into_following minSize sections
      in if 2 \<le> length merged \<and> int (length (snd (last merged))) < minSize
         then butlast (butlast merged) @ [fold_into (last merged) (last (butlast merged))]
         else merged)"

text \<open>The size floor: only one section, or every section has at least \<open>minSize\<close> files.\<close>

definition size_floor :: "int \<Rightarrow> repo_section list \<Rightarrow> bool" where
  "size_floor minSize sections =
     (length sections = 1 \<or> list_all (\<lambda>s. minSize \<le> int (length (snd s))) sections)"

section \<open>Example inputs\<close>

text \<open>
  A repository of four files, a cache that holds a structure record for it, a cache whose
  record lists the files but no sections, an empty cache, and partition strategies that put every file into a section of its own, with the merge pass
  above.
\<close>

definition example_files :: "string dict" where
  "example_files =
     [(''src/a.py'', ''import b''), (''src/b.py'', ''x = 1''),
      (''docs/readme.md'', ''demo''), (''docs/guide.md'', ''guide'')]"

definition example_structure :: structure_data where
  "example_structure =
     \<lparr>sd_sections =
        Some [(''src'', [''src/a.py'', ''src/b.py'']), (''readme'', [''docs/readme.md'']),
              (''guide'', [''docs/guide.md''])],
      sd_files = Some [''docs/guide.md'', ''docs/readme.md'', ''src/a.py'', ''src/b.py''],
      sd_section_method = Some ''HYBRID'',
      sd_owner = Some (Some ''octocat''), sd_repo = Some (Some ''demo''),
      sd_branch = Some (Some ''main'')\<rparr>"

definition example_cache :: repo_cache where
  "example_cache =
     \<lparr>get_repo_structure = (\<lambda>owner repo branch. Some example_structure),
      get_repo_metadata = (\<lambda>owner repo branch. None)\<rparr>"

definition files_only_cache :: repo_cache where
  "files_only_cache =
     \<lparr>get_repo_structure =
        (\<lambda>owner repo branch. Some (example_structure\<lparr>sd_sections := None\<rparr>)),
      get_repo_metadata = (\<lambda>owner repo branch. None)\<rparr>"

definition empty_cache :: repo_cache where
  "empty_cache =
     \<lparr>get_repo_structure = (\<lambda>owner repo branch. None),
      get_repo_metadata = (\<lambda>owner repo branch. None)\<rparr>"

definition one_section_per_file :: "string dict \<Rightarrow> repo_section list" where
  "one_section_per_file files = map (\<lambda>(path, content). (path, [(path, content)])) files"

definition example_strategies :: strategies where
  "example_strategies =
     \<lparr>structural_analysis = (\<lambda>files max_section_size. one_section_per_file files),
      dependency_analysis = (\<lambda>files max_section_size. one_section_per_file files),
      hybrid_analysis = (\<lambda>files max_section_size. one_section_per_file files),
      enhanced_dependency_analysis =
        (\<lambda>files owner repo max_section_size branch. one_section_per_file files),
      extract_enhanced_dependencies = (\<lambda>files owner repo. []),
      group_by_dependencies = (\<lambda>files deps max_section_size. one_section_per_file files),
      merge_small_sections = mergeSmall\<rparr>"

definition example_analyzer :: analyzer where
  "example_analyzer = \<lparr>sa_use_cache = True, sa_has_code_search = False\<rparr>"

section \<open>Properties of the inclusion filter\<close>

text \<open>
  C5. With an extension allow-list configured, a path whose suffix matches none of the allowed
  extensions is included exactly when some configured include-pattern occurs in the path as a
  substring. With no extension allow-list configured, a path is excluded exactly when its suffix
  matches the binary-extension skip-list.
\<close>

theorem should_include_file_filter:
  "(truthy_list extensions \<and> \<not> list_ex (\<lambda>ext. endswith path ext) (elems extensions) \<longrightarrow>
      (should_include_file extensions include_patterns path \<longleftrightarrow>
         truthy_list include_patterns
         \<and> list_ex (\<lambda>pattern. str_in pattern path) (elems include_patterns)))
   \<and> (\<not> truthy_list extensions \<longrightarrow>
      (\<not> should_include_file extensions include_patterns path \<longleftrightarrow>
         list_ex (\<lambda>ext. endswith path ext) binary_extensions))"
  by (simp add: should_include_file_def Let_def)

theorem should_include_file_filter_witness:
  "should_include_file (Some [''.py'']) (Some [''README'']) ''README.md''
   \<and> \<not> should_include_file (Some [''.py'']) (Some [''README'']) ''notes.txt''
   \<and> \<not> should_include_file None None ''logo.png''
   \<and> should_include_file None None ''notes.txt''"
  using should_include_file_filter [of "Some [''.py'']" "''README.md''" "Some [''README'']"]
        should_include_file_filter [of "Some [''.py'']" "''notes.txt''" "Some [''README'']"]
        should_include_file_filter [of None "''logo.png''" None]
        should_include_file_filter [of None "''notes.txt''" None]
  by (simp add: truthy_list_def elems_def endswith_def str_in_def binary_extensions_def
        suffix_to_prefix sublist_code(3))

text \<open>
  C10. The include-pattern override bypasses the binary skip-list: a path admitted by the
  override (allow-list configured, no allowed extension matches, some include-pattern occurs
  in the path) is included whatever its suffix, also a suffix of the binary skip-list; a path
  whose suffix matches an allowed extension is excluded when the suffix also matches the
  binary skip-list.
\<close>

theorem override_bypasses_binary_skip_list:
  "(truthy_list extensions \<and> \<not> list_ex (\<lambda>ext. endswith path ext) (elems extensions)
      \<and> truthy_list include_patterns
      \<and> list_ex (\<lambda>pattern. str_in pattern path) (elems include_patterns)
      \<and> list_ex (\<lambda>ext. endswith path ext) binary_extensions
      \<longrightarrow> should_include_file extensions include_patterns path)
   \<and> (truthy_list extensions \<and> list_ex (\<lambda>ext. endswith path ext) (elems extensions)
      \<and> list_ex (\<lambda>ext. endswith path ext) binary_extensions
      \<longrightarrow> \<not> should_include_file extensions include_patterns path)"
  by (simp add: should_include_file_def Let_def)

theorem override_bypasses_binary_skip_list_witness:
  "should_include_file (Some [''.py'']) (Some [''logo'']) ''docs/logo.png''
   \<and> \<not> should_include_file (Some [''.py'', ''.png'']) (Some [''logo'']) ''docs/logo.png''"
  using override_bypasses_binary_skip_list
          [of "Some [''.py'']" "''docs/logo.png''" "Some [''logo'']"]
        override_bypasses_binary_skip_list
          [of "Some [''.py'', ''.png'']" "''docs/logo.png''" "Some [''logo'']"]
  by (simp add: truthy_list_def elems_def endswith_def str_in_def binary_extensions_def
        suffix_to_prefix sublist_code(3))

section \<open>Properties of the fetch phase\<close>

lemma map_of_process_completed:
  "map_of (process_completed g ps r) p =
     (case g p of Inr c \<Rightarrow> if p \<in> set ps then Some c else map_of r p | Inl e \<Rightarrow> map_of r p)"
  by (induction ps arbitrary: r) (auto simp: update_conv' split: sum.splits)

lemma set_drop_split: "set (drop i xs) = set (take b (drop i xs)) \<union> set (drop (i + b) xs)"
proof -
  have "drop i xs = take b (drop i xs) @ drop b (drop i xs)"
    by (rule append_take_drop_id [symmetric])
  then have "set (drop i xs) = set (take b (drop i xs)) \<union> set (drop b (drop i xs))"
    by (metis set_append)
  then show ?thesis by (simp add: add.commute)
qed

lemma map_of_fetch_batches:
  "0 < b \<Longrightarrow> (\<And>xs. set (ac xs) = set xs) \<Longrightarrow>
   map_of (fetch_batches g ac ps b i r) p =
     (case g p of Inr c \<Rightarrow> if p \<in> set (drop i ps) then Some c else map_of r p
                | Inl e \<Rightarrow> map_of r p)"
proof (induction g ac ps b i r rule: fetch_batches.induct)
  case (1 g ac ps b i r)
  show ?case
  proof (cases "length ps \<le> i")
    case True
    then have "fetch_batches g ac ps b i r = r"
      by (subst fetch_batches.simps) simp
    with True show ?thesis by (simp split: sum.splits)
  next
    case False
    let ?r = "process_completed g (ac (take b (drop i ps))) r"
    from False 1 have IH: "map_of (fetch_batches g ac ps b (i + b) ?r) p =
       (case g p of Inr c \<Rightarrow> if p \<in> set (drop (i + b) ps) then Some c else map_of ?r p
                  | Inl e \<Rightarrow> map_of ?r p)"
      by simp
    have S: "set (drop i ps) = set (take b (drop i ps)) \<union> set (drop (i + b) ps)"
      by (rule set_drop_split)
    from False 1(2) have "fetch_batches g ac ps b i r = fetch_batches g ac ps b (i + b) ?r"
      by (subst fetch_batches.simps) simp
    then show ?thesis
      using IH S 1(3) by (auto simp: map_of_process_completed split: sum.splits)
  qed
qed

text \<open>
  C4. With a positive batch size and worker count, whatever the order in which the futures of
  a batch complete: the fetch phase returns a file map (no exception escapes it); a path whose
  fetch or decoding raises is absent from the map; every collected path whose fetch succeeds
  is present with its content.
\<close>

theorem fetch_phase_isolates_failures:
  assumes "0 < batch_size" and "0 < max_workers"
    and "\<And>batch. set (as_completed batch) = set batch"
  shows "\<exists>result.
     fetch_file_contents get_file_content as_completed all_file_paths batch_size max_workers
       = Inr result
     \<and> (\<forall>path. case get_file_content path of
            Inl e \<Rightarrow> map_of result path = None
          | Inr content \<Rightarrow>
              map_of result path = (if path \<in> set all_file_paths then Some content else None))"
proof -
  from assms(1) have b: "0 < nat batch_size" by simp
  have "map_of (fetch_batches get_file_content as_completed all_file_paths (nat batch_size) 0 []) p =
      (case get_file_content p of
         Inr c \<Rightarrow> if p \<in> set all_file_paths then Some c else None | Inl e \<Rightarrow> None)" for p
    using map_of_fetch_batches [OF b assms(3), of get_file_content all_file_paths 0 "[]" p]
    by (simp split: sum.splits)
  with assms(1,2) show ?thesis
    by (auto simp: fetch_file_contents_def split: sum.splits)
qed

theorem fetch_phase_isolates_failures_witness:
  "\<exists>result.
     fetch_file_contents
       (\<lambda>path. if path = ''b.py'' then Inl (Exception ''timeout'') else Inr (''# '' @ path))
       rev [''a.py'', ''b.py'', ''c.py'', ''d.py'', ''e.py''] 5 5 = Inr result
     \<and> map_of result ''b.py'' = None
     \<and> map_of result ''a.py'' = Some ''# a.py''
     \<and> map_of result ''c.py'' = Some ''# c.py''
     \<and> map_of result ''d.py'' = Some ''# d.py''
     \<and> map_of result ''e.py'' = Some ''# e.py''"
proof -
  let ?g = "\<lambda>path. if path = ''b.py'' then Inl (Exception ''timeout'') else Inr (''# '' @ path)"
  let ?ps = "[''a.py'', ''b.py'', ''c.py'', ''d.py'', ''e.py'']"
  have o: "\<And>batch :: string list. set (rev batch) = set batch" by simp
  have "(0::int) < 5" by simp
  from fetch_phase_isolates_failures [OF this this o, of ?g ?ps]
  obtain result where r: "fetch_file_contents ?g rev ?ps 5 5 = Inr result"
    and m: "\<And>path. case ?g path of
            Inl e \<Rightarrow> map_of result path = None
          | Inr content \<Rightarrow> map_of result path = (if path \<in> set ?ps then Some content else None)"
    by blast
  from m [of "''a.py''"] m [of "''b.py''"] m [of "''c.py''"] m [of "''d.py''"] m [of "''e.py''"] r
  show ?thesis by simp
qed

section \<open>Default-branch resolution\<close>

lemma GithubClientMCP_get_default_branch_total:
  "\<exists>branch. GithubClientMCP_get_default_branch call_mcp_tool owner repo = Inr branch"
  by (simp add: GithubClientMCP_get_default_branch_def split: sum.splits list.splits option.splits)

lemma GithubClientMCP_get_default_branch_fallback:
  "call_mcp_tool (''repo:'' @ owner @ ''/'' @ repo) = Inl e \<Longrightarrow>
   GithubClientMCP_get_default_branch call_mcp_tool owner repo = Inr ''main''"
  by (simp add: GithubClientMCP_get_default_branch_def)

text \<open>
  C6. The direct client's branch resolution has no handler: when the remote call
  \<^verbatim>\<open>get_repo\<close> raises, \<^verbatim>\<open>_get_default_branch\<close> raises the same exception, and so does
  \<^verbatim>\<open>get_repository_structure\<close> called without a branch; the fallback \<^verbatim>\<open>"main"\<close> is not
  returned. The MCP client, on the same failure, returns \<^verbatim>\<open>"main"\<close>.
\<close>

theorem GithubClientDirect_get_default_branch_raises:
  "GithubClientDirect_get_default_branch (\<lambda>full_name. Inl (Exception ''404 Not Found''))
       ''octocat'' ''missing'' = Inl (Exception ''404 Not Found'')
   \<and> branch_to_use (GithubClientDirect_get_default_branch
         (\<lambda>full_name. Inl (Exception ''404 Not Found'')) ''octocat'' ''missing'') None
       = Inl (Exception ''404 Not Found'')
   \<and> branch_to_use (GithubClientMCP_get_default_branch
         (\<lambda>query. Inl (Exception ''404 Not Found'')) ''octocat'' ''missing'') None
       = Inr ''main''"
  by (simp add: GithubClientDirect_get_default_branch_def GithubClientMCP_get_default_branch_def
        branch_to_use_def)

section \<open>Backlink search\<close>

lemma fold_items:
  "fold (\<lambda>item references.
           if item_path item = Some fp then references else insert (item_path item) references)
        its R
     = R \<union> (item_path ` set its - {Some fp})"
  by (induction its arbitrary: R) auto

lemma search_references_union:
  "search_references c owner repo fp =
     (\<Union>query \<in> set (backlink_queries fp). item_path ` set (search_code c owner repo query 100))
       - {Some fp}"
proof -
  have "fold (\<lambda>query references.
             fold (\<lambda>item references.
                     if item_path item = Some fp then references
                     else insert (item_path item) references)
                  (search_code c owner repo query 100) references) qs R
        = R \<union> ((\<Union>query \<in> set qs. item_path ` set (search_code c owner repo query 100))
                  - {Some fp})" for qs R
    by (induction qs arbitrary: R) (auto simp: fold_items)
  then show ?thesis by (simp add: search_references_def)
qed

lemma search_code_length: "length (search_code c owner repo q m) \<le> m"
  by (simp add: search_code_def Let_def split: sum.splits)

lemma card_UN_list:
  "(\<And>q. q \<in> set qs \<Longrightarrow> finite (f q) \<and> card (f q) \<le> n) \<Longrightarrow>
   finite (\<Union>q \<in> set qs. f q) \<and> card (\<Union>q \<in> set qs. f q) \<le> length qs * n"
proof (induction qs)
  case Nil
  then show ?case by simp
next
  case (Cons q qs)
  then have IH: "finite (\<Union>q \<in> set qs. f q)" "card (\<Union>q \<in> set qs. f q) \<le> length qs * n"
    by simp_all
  from Cons.prems [of q] have q: "finite (f q)" "card (f q) \<le> n" by simp_all
  have "card (f q \<union> (\<Union>q \<in> set qs. f q)) \<le> card (f q) + card (\<Union>q \<in> set qs. f q)"
    by (rule card_Un_le)
  with IH q show ?case by simp
qed

lemma backlink_queries_length: "length (backlink_queries fp) \<le> 3"
  by (simp add: backlink_queries_def Let_def split: prod.splits)

lemma search_references_card:
  "finite (search_references c owner repo fp) \<and> card (search_references c owner repo fp) \<le> 300"
proof -
  let ?f = "\<lambda>query. item_path ` set (search_code c owner repo query 100)"
  have "finite (?f q) \<and> card (?f q) \<le> 100" for q
    using card_image_le [of "set (search_code c owner repo q 100)" item_path]
          card_length [of "search_code c owner repo q 100"]
          search_code_length [of c owner repo q 100]
    by simp
  then have U: "finite (\<Union>q \<in> set (backlink_queries fp). ?f q)"
      "card (\<Union>q \<in> set (backlink_queries fp). ?f q) \<le> length (backlink_queries fp) * 100"
    using card_UN_list [of "backlink_queries fp" ?f 100] by simp_all
  have "card ((\<Union>q \<in> set (backlink_queries fp). ?f q) - {Some fp})
          \<le> card (\<Union>q \<in> set (backlink_queries fp). ?f q)"
    using U(1) by (simp add: card_Diff1_le)
  with U backlink_queries_length [of fp] show ?thesis
    by (simp add: search_references_union)
qed

text \<open>
  C8, the claim as stated fails for a package-root file that has no parent directory: for
  \<^verbatim>\<open>__init__.py\<close> at the top of the repository the parent directory's name is empty and the
  import queries keep the module name \<^verbatim>\<open>__init__\<close>.
\<close>

theorem backlink_queries_root_init:
  "basename (dirname ''__init__.py'') = []
   \<and> backlink_queries ''__init__.py''
       = [quoted ''__init__.py'', quoted ''import __init__'', quoted ''from __init__'']"
  by (simp add: backlink_queries_def basename_def dirname_def splitext_def Let_def)

text \<open>
  C8, amended. The result of \<^verbatim>\<open>search_references\<close> is the union, over the backlink queries of
  the file, of the paths of the items that \<^verbatim>\<open>search_code\<close> returns, without the queried file
  itself. The queries are the quoted file name and, when the extension of the file name is
  \<^verbatim>\<open>.py\<close>, the quoted phrases \<^verbatim>\<open>import m\<close> and \<^verbatim>\<open>from m\<close>, where \<open>m\<close> is the file name
  without extension, except that for \<^verbatim>\<open>__init__.py\<close> with a non-empty parent directory name
  \<open>m\<close> is that name. Each query contributes at most 100 items, so the result has at most
  300 elements.
\<close>

theorem search_references_union_capped:
  "search_references call_mcp_tool owner repo filepath =
     (\<Union>query \<in> set (backlink_queries filepath).
         item_path ` set (search_code call_mcp_tool owner repo query 100)) - {Some filepath}
   \<and> backlink_queries filepath =
       (let filename = basename filepath;
            name = fst (splitext filename);
            dir_name = basename (dirname filepath);
            m = (if name = ''__init__'' \<and> dir_name \<noteq> [] then dir_name else name)
        in quoted filename #
           (if snd (splitext filename) = ''.py''
            then [quoted (''import '' @ m), quoted (''from '' @ m)] else []))
   \<and> (\<forall>query. length (search_code call_mcp_tool owner repo query 100) \<le> 100)
   \<and> finite (search_references call_mcp_tool owner repo filepath)
   \<and> card (search_references call_mcp_tool owner repo filepath) \<le> 300"
proof -
  have "backlink_queries filepath =
       (let filename = basename filepath;
            name = fst (splitext filename);
            dir_name = basename (dirname filepath);
            m = (if name = ''__init__'' \<and> dir_name \<noteq> [] then dir_name else name)
        in quoted filename #
           (if snd (splitext filename) = ''.py''
            then [quoted (''import '' @ m), quoted (''from '' @ m)] else []))"
    by (simp add: backlink_queries_def Let_def split: prod.splits)
  then show ?thesis
    using search_references_union [of call_mcp_tool owner repo filepath]
          search_references_card [of call_mcp_tool owner repo filepath]
          search_code_length [of call_mcp_tool owner repo _ 100]
    by simp
qed

theorem search_references_union_capped_witness:
  "search_references
     (\<lambda>query page per_page.
        Inr \<lparr>cs_items = [\<lparr>item_path = Some ''app.py''\<rparr>, \<lparr>item_path = Some ''pkg/util.py''\<rparr>],
             cs_total_count = 2\<rparr>)
     ''octocat'' ''demo'' ''pkg/util.py'' = {Some ''app.py''}"
  using search_references_union_capped
          [of "\<lambda>query page per_page.
                 Inr \<lparr>cs_items = [\<lparr>item_path = Some ''app.py''\<rparr>,
                                  \<lparr>item_path = Some ''pkg/util.py''\<rparr>],
                      cs_total_count = 2\<rparr>"
              "''octocat''" "''demo''" "''pkg/util.py''"]
  by (auto simp: search_code_def search_code_pages.simps Let_def basename_def dirname_def
        splitext_def quoted_def)

section \<open>The capability flag\<close>






section \<open>The cache short-circuit of analyze_repository\<close>

lemma map_of_section_files_fold:
  "map_of (fold (\<lambda>path section_files.
             case map_of repo_files path of
               Some content \<Rightarrow> AList.update path content section_files
             | None \<Rightarrow> section_files) ps acc) p =
     (if p \<in> set ps \<and> map_of repo_files p \<noteq> None then map_of repo_files p else map_of acc p)"
  by (induction ps arbitrary: acc) (auto simp: update_conv' split: option.splits)

lemma map_of_section_files_of:
  "map_of (section_files_of repo_files ps) p = (if p \<in> set ps then map_of repo_files p else None)"
  by (auto simp: section_files_of_def map_of_section_files_fold)

lemma sections_from_cache_fold:
  "fold (\<lambda>(section_name, file_paths) sections.
             let section_files = section_files_of repo_files file_paths
             in if section_files \<noteq> [] then sections @ [(section_name, section_files)]
                else sections) cs acc
    = acc @ filter (\<lambda>(name, files). files \<noteq> [])
              (map (\<lambda>(name, paths). (name, section_files_of repo_files paths)) cs)"
  by (induction cs arbitrary: acc) (auto simp: Let_def)

lemma sections_from_cache_eq:
  "sections_from_cache cs repo_files =
     filter (\<lambda>(name, files). files \<noteq> [])
       (map (\<lambda>(name, paths). (name, section_files_of repo_files paths)) cs)"
  by (simp add: sections_from_cache_def sections_from_cache_fold)

text \<open>
  C1, the claim as stated fails for two inputs with caching enabled and a stored record whose
  file list equals the key set of the file map: with the method \<^verbatim>\<open>STRUCTURAL\<close> the structural
  strategy is invoked, and so is the dependency strategy when the stored record holds no
  sections.
\<close>

theorem cached_structure_bypassed:
  "get_repo_structure example_cache (Some ''octocat'') (Some ''demo'') (Some ''main'')
     = Some example_structure
   \<and> set (map fst example_files) = set (elems (sd_files example_structure))
   \<and> take 2 (snd (analyze_repository example_analyzer example_cache example_strategies
                    example_files STRUCTURAL 15 2 (Some ''octocat'') (Some ''demo'')
                    (Some ''main'')))
     = [Call_structural_analysis, Call_merge_small_sections]
   \<and> set (map fst example_files)
     = set (elems (sd_files (example_structure\<lparr>sd_sections := None\<rparr>)))
   \<and> take 2 (snd (analyze_repository example_analyzer files_only_cache example_strategies
                    example_files DEPENDENCY 15 2 (Some ''octocat'') (Some ''demo'')
                    (Some ''main'')))
     = [Call_dependency_analysis, Call_merge_small_sections]"
  by code_simp

text \<open>
  C1, amended. For a call with caching enabled, a non-empty owner and repository name and the
  method \<^verbatim>\<open>DEPENDENCY\<close> or \<^verbatim>\<open>HYBRID\<close>: if the stored structure record for (owner, repo, branch)
  has a file list equal to the key set of the file map and a section mapping from which at
  least one non-empty section is rebuilt, then the call returns the sections rebuilt from the
  stored mapping, in its order, each with the stored paths that are in the file map and their
  current content, sections without such a path left out, and the run invokes no partition
  strategy and no other method.
\<close>

theorem cached_structure_short_circuit:
  assumes "sa_use_cache self" and "truthy_str owner" and "truthy_str repo"
    and "method = DEPENDENCY \<or> method = HYBRID"
    and "get_repo_structure cache owner repo branch = Some cached_structure"
    and "set (map fst repo_files) = set (elems (sd_files cached_structure))"
    and "sd_sections cached_structure = Some cached_sections"
    and "sections_from_cache cached_sections repo_files \<noteq> []"
  shows "analyze_repository self cache st repo_files method max_section_size min_section_size
           owner repo branch
         = (sections_from_cache cached_sections repo_files, [])
       \<and> sections_from_cache cached_sections repo_files
         = filter (\<lambda>(name, files). files \<noteq> [])
             (map (\<lambda>(name, paths). (name, section_files_of repo_files paths)) cached_sections)
       \<and> (\<forall>paths path. map_of (section_files_of repo_files paths) path
             = (if path \<in> set paths then map_of repo_files path else None))"
proof -
  from assms(8) have "cached_sections \<noteq> []"
    by (auto simp: sections_from_cache_def)
  with assms have "use_cached_structure self cache repo_files method owner repo branch
      = Some (sections_from_cache cached_sections repo_files)"
    by (auto simp: use_cached_structure_def Let_def)
  then show ?thesis
    by (simp add: analyze_repository_def sections_from_cache_eq [symmetric]
          map_of_section_files_of)
qed

theorem cached_structure_short_circuit_witness:
  "analyze_repository example_analyzer example_cache example_strategies example_files
       HYBRID 15 2 (Some ''octocat'') (Some ''demo'') (Some ''main'')
     = ([(''src'', [(''src/a.py'', ''import b''), (''src/b.py'', ''x = 1'')]),
         (''readme'', [(''docs/readme.md'', ''demo'')]),
         (''guide'', [(''docs/guide.md'', ''guide'')])], [])"
proof -
  let ?cs = "[(''src'', [''src/a.py'', ''src/b.py'']), (''readme'', [''docs/readme.md'']),
              (''guide'', [''docs/guide.md''])]"
  have h1: "sa_use_cache example_analyzer" by (simp add: example_analyzer_def)
  have h2: "truthy_str (Some ''octocat'')" and h3: "truthy_str (Some ''demo'')"
    by (simp_all add: truthy_str_def)
  have h4: "HYBRID = DEPENDENCY \<or> HYBRID = HYBRID" by simp
  have h5: "get_repo_structure example_cache (Some ''octocat'') (Some ''demo'') (Some ''main'')
      = Some example_structure"
    by (simp add: example_cache_def)
  have h6: "set (map fst example_files) = set (elems (sd_files example_structure))"
    by code_simp
  have h7: "sd_sections example_structure = Some ?cs"
    by (simp add: example_structure_def)
  have v: "sections_from_cache ?cs example_files
      = [(''src'', [(''src/a.py'', ''import b''), (''src/b.py'', ''x = 1'')]),
         (''readme'', [(''docs/readme.md'', ''demo'')]),
         (''guide'', [(''docs/guide.md'', ''guide'')])]"
    by code_simp
  then have h8: "sections_from_cache ?cs example_files \<noteq> []" by simp
  from cached_structure_short_circuit [OF h1 h2 h3 h4 h5 h6 h7 h8, of example_strategies 15 2]
  show ?thesis by (simp only: v)
qed

section \<open>The size floor\<close>

lemma length_update_le: "length al \<le> length (AList.update k v al)"
  by (induction al) auto

lemma length_fold_update:
  "length t \<le> length (fold (\<lambda>(path, content) files. AList.update path content files) xs t)"
proof (induction xs arbitrary: t)
  case Nil
  then show ?case by simp
next
  case (Cons x xs)
  obtain p c where x: "x = (p, c)" by (cases x)
  have "length t \<le> length (AList.update p c t)"
    by (rule length_update_le)
  also have "\<dots> \<le> length (fold (\<lambda>(path, content) files. AList.update path content files) xs
                          (AList.update p c t))"
    by (rule Cons.IH)
  finally show ?case by (simp add: x)
qed

lemma length_fold_into: "length (snd t) \<le> length (snd (fold_into s t))"
  by (simp add: fold_into_def length_fold_update)

lemma merge_into_following_Nil: "merge_into_following m xs = [] \<longleftrightarrow> xs = []"
  by (induction m xs rule: merge_into_following.induct) auto

lemma merge_into_following_butlast:
  "list_all (\<lambda>s. m \<le> int (length (snd s))) (butlast (merge_into_following m xs))"
  by (induction m xs rule: merge_into_following.induct) (auto simp: merge_into_following_Nil)

lemma mergeSmall_size_floor: "size_floor m (mergeSmall xs m)"
proof -
  let ?ok = "\<lambda>s. m \<le> int (length (snd s))"
  let ?ys = "merge_into_following m xs"
  have B: "list_all ?ok (butlast ?ys)" by (rule merge_into_following_butlast)
  show ?thesis
  proof (cases "2 \<le> length ?ys \<and> int (length (snd (last ?ys))) < m")
    case True
    then have ne: "butlast ?ys \<noteq> []" by (cases ?ys) (auto split: if_splits)
    then have "butlast ?ys = butlast (butlast ?ys) @ [last (butlast ?ys)]" by simp
    with B have B2: "list_all ?ok (butlast (butlast ?ys))" and L: "?ok (last (butlast ?ys))"
      by (metis list_all_append list.pred_inject(2))+
    from L length_fold_into [of "last (butlast ?ys)" "last ?ys"]
    have "?ok (fold_into (last ?ys) (last (butlast ?ys)))" by linarith
    with B2 True show ?thesis by (simp add: mergeSmall_def size_floor_def Let_def)
  next
    case False
    then have E: "mergeSmall xs m = ?ys"
      unfolding mergeSmall_def Let_def by (rule if_not_P)
    show ?thesis
    proof (cases "length ?ys < 2")
      case True
      then have "?ys = [] \<or> length ?ys = 1" by (cases ?ys) auto
      then show ?thesis unfolding E by (auto simp: size_floor_def)
    next
      case F2: False
      with False have L: "?ok (last ?ys)" by simp
      from F2 have "?ys \<noteq> []" by auto
      then have "?ys = butlast ?ys @ [last ?ys]" by simp
      with B L have "list_all ?ok ?ys" by (metis list_all_append list.pred_inject)
      then show ?thesis unfolding E by (simp add: size_floor_def)
    qed
  qed
qed

text \<open>
  C2, the claim as stated fails for a run that is answered from the cached structure: the
  stored sections are returned without a merge pass, here three sections of which two hold
  one file, for a minimum size of two.
\<close>

theorem cached_sections_below_size_floor:
  "analyze_repository example_analyzer example_cache example_strategies example_files
       DEPENDENCY 15 2 (Some ''octocat'') (Some ''demo'') (Some ''main'')
     = ([(''src'', [(''src/a.py'', ''import b''), (''src/b.py'', ''x = 1'')]),
         (''readme'', [(''docs/readme.md'', ''demo'')]),
         (''guide'', [(''docs/guide.md'', ''guide'')])], [])
   \<and> \<not> size_floor 2
         (fst (analyze_repository example_analyzer example_cache example_strategies
                 example_files DEPENDENCY 15 2 (Some ''octocat'') (Some ''demo'')
                 (Some ''main'')))"
  by code_simp

text \<open>
  C2, amended. For every run of \<^verbatim>\<open>analyze_repository\<close> that is not answered from the cached
  structure and has a minimum section size above one, whatever the method, the returned
  sections are the result of the merge pass on the sections of the selected strategy, and
  with the merge pass of the specification every returned section has at least
  \<^verbatim>\<open>min_section_size\<close> files unless exactly one section is returned.
\<close>

theorem merge_pass_size_floor:
  assumes "use_cached_structure self cache repo_files method owner repo branch = None"
    and "1 < min_section_size"
    and "merge_small_sections st = mergeSmall"
  shows "fst (analyze_repository self cache st repo_files method max_section_size
                min_section_size owner repo branch)
         = mergeSmall
             (fst (select_analysis self st repo_files method max_section_size owner repo branch))
             min_section_size
       \<and> size_floor min_section_size
           (fst (analyze_repository self cache st repo_files method max_section_size
                   min_section_size owner repo branch))"
proof -
  from assms have "fst (analyze_repository self cache st repo_files method max_section_size
                min_section_size owner repo branch)
         = mergeSmall
             (fst (select_analysis self st repo_files method max_section_size owner repo branch))
             min_section_size"
    by (simp add: analyze_repository_def Let_def split: prod.splits)
  then show ?thesis by (simp add: mergeSmall_size_floor)
qed

theorem merge_pass_size_floor_witness:
  "size_floor 2
     (fst (analyze_repository example_analyzer empty_cache example_strategies example_files
             STRUCTURAL 15 2 (Some ''octocat'') (Some ''demo'') (Some ''main'')))
   \<and> fst (analyze_repository example_analyzer empty_cache example_strategies example_files
             STRUCTURAL 15 2 (Some ''octocat'') (Some ''demo'') (Some ''main''))
     = [(''src/b.py'', [(''src/b.py'', ''x = 1''), (''src/a.py'', ''import b'')]),
        (''docs/guide.md'', [(''docs/guide.md'', ''guide''), (''docs/readme.md'', ''demo'')])]"
proof -
  have h1: "use_cached_structure example_analyzer empty_cache example_files STRUCTURAL
      (Some ''octocat'') (Some ''demo'') (Some ''main'') = None"
    by (simp add: use_cached_structure_def)
  have h2: "(1::int) < 2" by simp
  have h3: "merge_small_sections example_strategies = mergeSmall"
    by (simp add: example_strategies_def)
  have v: "fst (analyze_repository example_analyzer empty_cache example_strategies example_files
             STRUCTURAL 15 2 (Some ''octocat'') (Some ''demo'') (Some ''main''))
     = [(''src/b.py'', [(''src/b.py'', ''x = 1''), (''src/a.py'', ''import b'')]),
        (''docs/guide.md'', [(''docs/guide.md'', ''guide''), (''docs/readme.md'', ''demo'')])]"
    by code_simp
  from merge_pass_size_floor [OF h1 h2 h3, of 15] v show ?thesis by blast
qed

section \<open>What a run persists\<close>

lemma refine_large_sections_no_writes:
  "list_all (\<lambda>e. \<not> is_cache_write e) (snd (refine_large_sections st deps m secs))"
  by (induction secs) (auto simp: Let_def split: prod.splits)

lemma select_analysis_no_writes:
  "list_all (\<lambda>e. \<not> is_cache_write e)
     (snd (select_analysis self st repo_files method m owner repo branch))"
  using refine_large_sections_no_writes
  by (auto simp: select_analysis_def Let_def split: prod.splits) (metis snd_conv)

lemma map_of_sizes_fold:
  "map_of (fold (\<lambda>(name, files) d. AList.update name (length files) d) secs acc) n =
     (case map_of (rev secs) n of Some files \<Rightarrow> Some (length files) | None \<Rightarrow> map_of acc n)"
  by (induction secs arbitrary: acc) (auto simp: update_conv' map_add_def split: option.splits)

text \<open>
  C3, the claim as stated fails for a run without an owner, which calls no write method of
  the cache, and for a run answered from the cached structure, which calls nothing at all.
\<close>

theorem run_persists_nothing:
  "snd (analyze_repository example_analyzer empty_cache example_strategies example_files
          STRUCTURAL 15 2 None (Some ''demo'') (Some ''main''))
     = [Call_structural_analysis, Call_merge_small_sections]
   \<and> snd (analyze_repository example_analyzer example_cache example_strategies example_files
          DEPENDENCY 15 2 (Some ''octocat'') (Some ''demo'') (Some ''main''))
     = []"
  by code_simp

text \<open>
  C3, amended. A run of \<^verbatim>\<open>analyze_repository\<close> with caching enabled and a non-empty owner and
  repository name that is not answered from the cached structure ends with a call of
  \<^verbatim>\<open>save_repo_metadata\<close> keyed by (owner, repo, branch), given the stored metadata updated
  with the number of returned sections, the name of the method and the size of every returned
  section under its name. Every other run writes nothing to the cache.
\<close>

theorem run_persists_metadata:
  "(sa_use_cache self \<and> truthy_str owner \<and> truthy_str repo
      \<and> use_cached_structure self cache repo_files method owner repo branch = None \<longrightarrow>
     (\<exists>sections events metadata sizes.
        analyze_repository self cache st repo_files method max_section_size min_section_size
          owner repo branch
        = (sections, events @ [Save_repo_metadata owner repo metadata branch])
      \<and> md_section_count metadata = Some (length sections)
      \<and> md_section_method metadata = Some (method_name method)
      \<and> md_sections metadata = Some sizes
      \<and> (\<forall>name. map_of sizes name = map_option length (map_of (rev sections) name))))
   \<and> (\<not> (sa_use_cache self \<and> truthy_str owner \<and> truthy_str repo)
      \<or> use_cached_structure self cache repo_files method owner repo branch \<noteq> None \<longrightarrow>
     list_all (\<lambda>e. \<not> is_cache_write e)
       (snd (analyze_repository self cache st repo_files method max_section_size
               min_section_size owner repo branch)))"
proof -
  let ?sel = "select_analysis self st repo_files method max_section_size owner repo branch"
  have nw: "list_all (\<lambda>e. \<not> is_cache_write e) (snd ?sel)"
    by (rule select_analysis_no_writes)
  have sizes: "map_of (fold (\<lambda>(name, files) d. AList.update name (length files) d) secs []) name
      = map_option length (map_of (rev secs) name)" for secs :: "repo_section list" and name
    by (simp add: map_of_sizes_fold split: option.splits)
  have snoc: "xs @ [a, b] = (xs @ [a]) @ [b]" for xs :: "event list" and a b
    by simp
  show ?thesis
  proof (cases "use_cached_structure self cache repo_files method owner repo branch")
    case (Some secs)
    then show ?thesis by (simp add: analyze_repository_def)
  next
    case None
    show ?thesis
    proof (cases "sa_use_cache self \<and> truthy_str owner \<and> truthy_str repo")
      case True
      with None sizes show ?thesis
        by (cases ?sel)
           (simp add: analyze_repository_def cache_sections_def Let_def snoc
              del: append_assoc append.simps split: option.splits)
    next
      case False
      with None nw show ?thesis
        by (cases ?sel) (auto simp: analyze_repository_def cache_sections_def Let_def)
    qed
  qed
qed

theorem run_persists_metadata_witness:
  "\<exists>sections events metadata.
     analyze_repository example_analyzer empty_cache example_strategies example_files
       STRUCTURAL 15 2 (Some ''octocat'') (Some ''demo'') (Some ''main'')
     = (sections,
        events @ [Save_repo_metadata (Some ''octocat'') (Some ''demo'') metadata (Some ''main'')])
     \<and> md_section_count metadata = Some (length sections)
     \<and> md_section_method metadata = Some ''STRUCTURAL''
     \<and> length sections = 2"
proof -
  have h: "sa_use_cache example_analyzer \<and> truthy_str (Some ''octocat'')
      \<and> truthy_str (Some ''demo'')
      \<and> use_cached_structure example_analyzer empty_cache example_files STRUCTURAL
           (Some ''octocat'') (Some ''demo'') (Some ''main'') = None"
    by (simp add: example_analyzer_def truthy_str_def use_cached_structure_def)
  have v: "length (fst (analyze_repository example_analyzer empty_cache example_strategies
             example_files STRUCTURAL 15 2 (Some ''octocat'') (Some ''demo'') (Some ''main'')))
           = 2"
    by code_simp
  have m: "method_name STRUCTURAL = ''STRUCTURAL''" by (simp add: method_name_def)
  from run_persists_metadata
         [of example_analyzer "Some ''octocat''" "Some ''demo''" empty_cache example_files
             STRUCTURAL "Some ''main''" example_strategies 15 2] h
  obtain sections events metadata where
    r: "analyze_repository example_analyzer empty_cache example_strategies example_files
          STRUCTURAL 15 2 (Some ''octocat'') (Some ''demo'') (Some ''main'')
        = (sections,
           events @ [Save_repo_metadata (Some ''octocat'') (Some ''demo'') metadata
                       (Some ''main'')])"
    and c: "md_section_count metadata = Some (length sections)"
    and n: "md_section_method metadata = Some (method_name STRUCTURAL)"
    by blast
  from r v have l: "length sections = 2" by simp
  show ?thesis
    by (rule exI [of _ sections], rule exI [of _ events], rule exI [of _ metadata])
       (use r c n m l in simp)
qed


end
